theory Spec2Isabelle
  imports Main "HOL-Library.Sublist"
begin

section \<open>JavaScript values used by the two source files\<close>

text \<open>
  A value read from \<open>import.meta.env\<close> or from an optional field of an event payload is
  either \<open>undefined\<close> (\<open>None\<close>) or a string (\<open>Some s\<close>). Strings are lists of code
  units; the model keeps the code units below 256.
\<close>

definition truthy :: "string option \<Rightarrow> bool" where
  \<comment> \<open>JavaScript's ToBoolean on a string or \<open>undefined\<close>: only \<open>undefined\<close> and \<open>""\<close> are falsy.\<close>
  "truthy v = (case v of None \<Rightarrow> False | Some s \<Rightarrow> s \<noteq> [])"

definition or_else :: "string option \<Rightarrow> string \<Rightarrow> string" where
  \<comment> \<open>The expression \<open>v || d\<close> for a string or \<open>undefined\<close> \<open>v\<close> and a string \<open>d\<close>.\<close>
  "or_else v d = (case v of None \<Rightarrow> d | Some s \<Rightarrow> if s = [] then d else s)"

definition isWhiteSpace :: "char \<Rightarrow> bool" where
  \<comment> \<open>WhiteSpace and LineTerminator code units of ECMAScript below 256:
      TAB, LF, VT, FF, CR, SP, NBSP.\<close>
  "isWhiteSpace c = ((of_char c :: nat) \<in> {9, 10, 11, 12, 13, 32, 160})"

definition trim :: "string \<Rightarrow> string" where
  \<comment> \<open>\<open>String.prototype.trim\<close>: white space removed from both ends.\<close>
  "trim s = rev (dropWhile isWhiteSpace (rev (dropWhile isWhiteSpace s)))"

datatype thrown =
    Error string   \<comment> \<open>an \<open>Error\<close> instance, with its \<open>message\<close>\<close>
  | NonError       \<comment> \<open>any other thrown value (\<open>err instanceof Error\<close> is false)\<close>

datatype settled = Resolved | Rejected thrown


section \<open>src/lib/twin-sdk.ts: the client singleton\<close>

record env =
  VITE_PLATFORM_API_KEY :: "string option"
  VITE_PLATFORM_API_URL :: "string option"

text \<open>The external client is opaque; it is represented by the options it was constructed with.\<close>

record SoulCypherSDK =
  apiKey :: string
  baseUrl :: string

definition not_configured_message :: string where
  "not_configured_message =
     ''SoulCypher Platform API key not configured. Set VITE_PLATFORM_API_KEY in your .env.local file. '' @
     ''Get your API key from https://dev.soulcypher.ai''"

text \<open>
  \<open>getPlatformSDK\<close> reads and writes the module variable \<open>sdk\<close>: the model takes its value
  and returns the result (\<open>Inl\<close> for the thrown error) with the new value.
\<close>

definition getPlatformSDK ::
  "env \<Rightarrow> SoulCypherSDK option \<Rightarrow> (thrown + SoulCypherSDK) \<times> SoulCypherSDK option" where
  "getPlatformSDK e sdk =
     (case sdk of
        Some c \<Rightarrow> (Inr c, sdk)
      | None \<Rightarrow>
          (case VITE_PLATFORM_API_KEY e of
             None \<Rightarrow> (Inl (Error not_configured_message), None)
           | Some k \<Rightarrow>
               if k = [] \<or> k = ''sk_xxxxx'' then (Inl (Error not_configured_message), None)
               else
                 (let c = \<lparr>apiKey = k,
                           baseUrl = or_else (VITE_PLATFORM_API_URL e) ''https://api.soulcypher.ai''\<rparr>
                  in (Inr c, Some c))))"

definition isPlatformSDKConfigured :: "env \<Rightarrow> bool" where
  "isPlatformSDKConfigured e =
     (truthy (VITE_PLATFORM_API_KEY e) \<and> VITE_PLATFORM_API_KEY e \<noteq> Some ''sk_xxxxx'')"


section \<open>src/components/TwinSDKExample.tsx: the chat session controller\<close>

subsection \<open>Data\<close>

datatype role = User | Assistant

text \<open>
  \<open>Date.now()\<close> and \<open>new Date()\<close> read the clock; a handler run gets the reading as the
  argument \<open>now\<close> (milliseconds), and the message id is that number.
\<close>

record Message =
  msg_id :: nat
  role :: role
  content :: string
  timestamp :: nat

text \<open>The JSON body of the backend's answer: its \<open>error\<close> field and the rest, opaque.\<close>

record json =
  error_field :: "string option"
  opaque :: string

text \<open>
  The session manager is an object of the external SDK. It is represented by the session
  data it was constructed from, and a serial number that keeps two objects apart.
\<close>

datatype AvatarSessionManager = Manager (serial: nat) (sessionData: json)

record status_data =
  status :: "string option"

record input_data =
  inputType :: "string option"
  input_text :: "string option"

record response_data =
  response_text :: "string option"

record error_data =
  message :: "string option"

text \<open>An event as the session manager delivers it; the \<open>data\<close> field is optional.\<close>

datatype event =
    Avatar_status "status_data option"
  | Avatar_input "input_data option"
  | Avatar_response "response_data option"
  | Avatar_error "error_data option"
  | Avatar_audio
  | Avatar_video

text \<open>What the component does to the outside, in order.\<close>

datatype effect =
    Toast_info string
  | Toast_error string "string option"
  | Toast_success string "string option"
  | Console_log string "string option"
  | Console_error string
  | Post_sessions string string          \<comment> \<open>\<open>fetch('/api/sessions')\<close> with avatarId, userId\<close>
  | New_manager AvatarSessionManager     \<comment> \<open>\<open>new AvatarSessionManager(sessionData)\<close>\<close>
  | On AvatarSessionManager string       \<comment> \<open>\<open>manager.on(kind, handler)\<close>\<close>
  | Connect AvatarSessionManager
  | Forward AvatarSessionManager string  \<comment> \<open>\<open>manager.sendMessage(text)\<close>\<close>
  | Disconnect AvatarSessionManager

text \<open>
  The component's React state and its ref, followed by the bookkeeping of the event loop:
  the effects so far, the suspended continuations (one per pending \<open>await\<close>), the managers
  that have handlers registered, and whether the component is still mounted.
\<close>

record state =
  messages :: "Message list"
  input :: string
  isInitializing :: bool
  isSending :: bool
  isWaitingForResponse :: bool
  error :: "string option"
  sessionManagerRef :: "AvatarSessionManager option"
  effects :: "effect list"
  pendingFetch :: nat
  pendingConnect :: "AvatarSessionManager list"
  pendingSend :: nat
  managers :: "AvatarSessionManager list"
  mounted :: bool

definition initial :: state where
  "initial = \<lparr>messages = [], input = [], isInitializing = False, isSending = False,
     isWaitingForResponse = False, error = None, sessionManagerRef = None,
     effects = [], pendingFetch = 0, pendingConnect = [], pendingSend = 0,
     managers = [], mounted = True\<rparr>"

text \<open>
  The build-time configuration: the environment and the constant \<open>DEMO_AVATAR_ID\<close>. The
  source ships the constant as the placeholder \<open>your-avatar-id-here\<close>, which
  \<open>initializeSession\<close> rejects, and asks for it to be replaced by an avatar id; the constant
  is therefore a parameter of the model.
\<close>

record config =
  platformEnv :: env
  DEMO_AVATAR_ID :: string

definition emit :: "effect list \<Rightarrow> state \<Rightarrow> state" where
  "emit es s = s\<lparr>effects := effects s @ es\<rparr>"


subsection \<open>initializeSession\<close>

text \<open>
  An async function runs in segments, one per \<open>await\<close>. The first segment runs when the
  function is called; it ends at \<open>return\<close> or at \<open>await fetch(...)\<close>. State is read as of
  the latest render.
\<close>

definition initializeSession :: "config \<Rightarrow> state \<Rightarrow> state" where
  "initializeSession cfg s =
     (if sessionManagerRef s \<noteq> None then
        emit [Toast_info ''Session already initialized''] s
      else if \<not> isPlatformSDKConfigured (platformEnv cfg) then
        emit [Toast_error ''Platform API key not configured''
                (Some ''Set VITE_PLATFORM_API_KEY in .env.local'')] s
      else if DEMO_AVATAR_ID cfg = ''your-avatar-id-here'' then
        emit [Toast_error ''Avatar ID not configured''
                (Some ''Replace DEMO_AVATAR_ID in TwinSDKExample.tsx with your actual avatar ID'')] s
      else
        s\<lparr>isInitializing := True, error := None,
          effects := effects s @ [Post_sessions (DEMO_AVATAR_ID cfg) ''demo-user''],
          pendingFetch := Suc (pendingFetch s)\<rparr>)"

text \<open>The \<open>catch\<close> block.\<close>

definition initializeSession_catch :: "thrown \<Rightarrow> state \<Rightarrow> state" where
  "initializeSession_catch err s =
     (let errorMessage = (case err of Error m \<Rightarrow> m | NonError \<Rightarrow> ''Failed to initialize session'')
      in s\<lparr>isInitializing := False, error := Some errorMessage,
           effects := effects s @
             [Console_error ''Failed to initialize session:'',
              Toast_error ''Initialization failed'' (Some errorMessage)]\<rparr>)"

text \<open>
  What \<open>fetch\<close> and the following \<open>json()\<close> give: the request fails, or a response arrives
  with its \<open>ok\<close> flag and a body that parses or not.
\<close>

datatype fetch_outcome =
    Fetch_rejected thrown
  | Fetch_response bool "thrown + json"

text \<open>
  The second segment: from the settled \<open>fetch\<close> to \<open>await manager.connect()\<close>, or into the
  \<open>catch\<close> block.
\<close>

definition initializeSession_fetched :: "fetch_outcome \<Rightarrow> state \<Rightarrow> state" where
  "initializeSession_fetched r s =
     (case r of
        Fetch_rejected e \<Rightarrow> initializeSession_catch e s
      | Fetch_response ok body \<Rightarrow>
          (case body of
             Inl e \<Rightarrow> initializeSession_catch e s
           | Inr j \<Rightarrow>
               if \<not> ok then
                 initializeSession_catch (Error (or_else (error_field j) ''Failed to create session'')) s
               else
                 (let manager = Manager (length (managers s)) j
                  in s\<lparr>effects := effects s @
                         [New_manager manager,
                          On manager ''avatar.status'', On manager ''avatar.input'',
                          On manager ''avatar.response'', On manager ''avatar.error'',
                          Connect manager],
                       pendingConnect := pendingConnect s @ [manager],
                       managers := managers s @ [manager]\<rparr>)))"

text \<open>The third segment: from the settled \<open>connect\<close> to the end.\<close>

definition initializeSession_connected :: "AvatarSessionManager \<Rightarrow> settled \<Rightarrow> state \<Rightarrow> state" where
  "initializeSession_connected manager r s =
     (case r of
        Resolved \<Rightarrow>
          s\<lparr>sessionManagerRef := Some manager, isInitializing := False,
            effects := effects s @
              [Toast_success ''Session initialized'' (Some ''You can now chat with the avatar'')]\<rparr>
      | Rejected e \<Rightarrow> initializeSession_catch e s)"


subsection \<open>The event listeners\<close>

text \<open>The optional chains \<open>event.data?.status\<close>, \<open>event.data?.inputType\<close> and so on.\<close>

definition data_status :: "status_data option \<Rightarrow> string option" where
  "data_status d = (case d of None \<Rightarrow> None | Some p \<Rightarrow> status p)"

definition data_inputType :: "input_data option \<Rightarrow> string option" where
  "data_inputType d = (case d of None \<Rightarrow> None | Some p \<Rightarrow> inputType p)"

definition data_input_text :: "input_data option \<Rightarrow> string option" where
  "data_input_text d = (case d of None \<Rightarrow> None | Some p \<Rightarrow> input_text p)"

definition data_response_text :: "response_data option \<Rightarrow> string option" where
  "data_response_text d = (case d of None \<Rightarrow> None | Some p \<Rightarrow> response_text p)"

definition data_message :: "error_data option \<Rightarrow> string option" where
  "data_message d = (case d of None \<Rightarrow> None | Some p \<Rightarrow> message p)"

definition on_avatar_status :: "status_data option \<Rightarrow> state \<Rightarrow> state" where
  "on_avatar_status d s =
     (let s1 = emit [Console_log ''Avatar status:'' (data_status d)] s
      in if data_status d = Some ''ready'' then
           (emit [Toast_success ''Avatar is ready!'' None] s1)\<lparr>isInitializing := False\<rparr>
         else s1)"

definition on_avatar_input :: "nat \<Rightarrow> input_data option \<Rightarrow> state \<Rightarrow> state" where
  "on_avatar_input now d s =
     (if data_inputType d = Some ''voice'' then
        (let userMessage = \<lparr>msg_id = now, role = User,
                            content = or_else (data_input_text d) ''Voice input received'',
                            timestamp = now\<rparr>
         in s\<lparr>messages := messages s @ [userMessage], isWaitingForResponse := True\<rparr>)
      else s)"

definition on_avatar_response :: "nat \<Rightarrow> response_data option \<Rightarrow> state \<Rightarrow> state" where
  "on_avatar_response now d s =
     (let assistantMessage = \<lparr>msg_id = now, role = Assistant,
                              content = or_else (data_response_text d) ''Response received'',
                              timestamp = now\<rparr>
      in s\<lparr>messages := messages s @ [assistantMessage], isWaitingForResponse := False\<rparr>)"

definition on_avatar_error :: "error_data option \<Rightarrow> state \<Rightarrow> state" where
  "on_avatar_error d s =
     s\<lparr>isWaitingForResponse := False,
       effects := effects s @
         [Console_error ''Avatar error:'',
          Toast_error ''Avatar error'' (Some (or_else (data_message d) ''Unknown error occurred''))]\<rparr>"

text \<open>No listener is registered for the audio and video events.\<close>

fun dispatch :: "nat \<Rightarrow> event \<Rightarrow> state \<Rightarrow> state" where
  "dispatch now (Avatar_status d) s = on_avatar_status d s"
| "dispatch now (Avatar_input d) s = on_avatar_input now d s"
| "dispatch now (Avatar_response d) s = on_avatar_response now d s"
| "dispatch now (Avatar_error d) s = on_avatar_error d s"
| "dispatch now Avatar_audio s = s"
| "dispatch now Avatar_video s = s"


subsection \<open>sendMessage\<close>

text \<open>The first segment: the guards, the optimistic append, the call of \<open>manager.sendMessage\<close>.\<close>

definition sendMessage :: "nat \<Rightarrow> state \<Rightarrow> state" where
  "sendMessage now s =
     (if trim (input s) = [] \<or> isSending s then s
      else
        (case sessionManagerRef s of
           None \<Rightarrow>
             emit [Toast_error ''Session not initialized'' (Some ''Click \"Start Session\" first'')] s
         | Some manager \<Rightarrow>
             (let userMessage = \<lparr>msg_id = now, role = User, content = trim (input s),
                                 timestamp = now\<rparr>
              in s\<lparr>messages := messages s @ [userMessage], input := [],
                   isSending := True, isWaitingForResponse := True,
                   effects := effects s @ [Forward manager (content userMessage)],
                   pendingSend := Suc (pendingSend s)\<rparr>)))"

text \<open>The second segment: \<open>catch\<close> when the forward call failed, then \<open>finally\<close>.\<close>

definition sendMessage_settled :: "settled \<Rightarrow> state \<Rightarrow> state" where
  "sendMessage_settled r s =
     (case r of
        Resolved \<Rightarrow> s\<lparr>isSending := False\<rparr>
      | Rejected err \<Rightarrow>
          s\<lparr>isSending := False, isWaitingForResponse := False,
            effects := effects s @
              [Console_error ''Failed to send message:'',
               Toast_error ''Failed to send message''
                 (Some (case err of Error m \<Rightarrow> m | NonError \<Rightarrow> ''Unknown error''))]\<rparr>)"


subsection \<open>Teardown\<close>

text \<open>The cleanup of the mount effect.\<close>

definition unmount :: "state \<Rightarrow> state" where
  "unmount s =
     (case sessionManagerRef s of
        None \<Rightarrow> s\<lparr>mounted := False\<rparr>
      | Some manager \<Rightarrow> s\<lparr>mounted := False, effects := effects s @ [Disconnect manager]\<rparr>)"


subsection \<open>The event loop\<close>

text \<open>
  One turn of the event loop: a user action, the settling of a pending \<open>await\<close>, or an event
  from a manager. A turn that cannot happen in the state (no such continuation is
  suspended, no manager has listeners, the component is gone) gives \<open>None\<close>. The model
  ends with the unmount, which is the end of the controller's lifetime; in the source a
  continuation that is suspended at that moment still resumes afterwards.
\<close>

datatype action =
    Click_start                               \<comment> \<open>\<open>initializeSession()\<close>\<close>
  | Fetch_settles fetch_outcome
  | Connect_settles AvatarSessionManager settled
  | Type string                               \<comment> \<open>\<open>setInput(e.target.value)\<close>\<close>
  | Click_send nat                            \<comment> \<open>\<open>sendMessage()\<close> at the clock reading\<close>
  | Send_settles settled
  | Deliver nat event
  | Unmount

fun exec :: "config \<Rightarrow> action \<Rightarrow> state \<Rightarrow> state option" where
  "exec cfg a s =
     (if \<not> mounted s then None
      else
        (case a of
           Click_start \<Rightarrow> Some (initializeSession cfg s)
         | Fetch_settles r \<Rightarrow>
             if pendingFetch s = 0 then None
             else Some (initializeSession_fetched r (s\<lparr>pendingFetch := pendingFetch s - 1\<rparr>))
         | Connect_settles m r \<Rightarrow>
             if m \<notin> set (pendingConnect s) then None
             else Some (initializeSession_connected m r
                          (s\<lparr>pendingConnect := remove1 m (pendingConnect s)\<rparr>))
         | Type t \<Rightarrow> Some (s\<lparr>input := t\<rparr>)
         | Click_send now \<Rightarrow> Some (sendMessage now s)
         | Send_settles r \<Rightarrow>
             if pendingSend s = 0 then None
             else Some (sendMessage_settled r (s\<lparr>pendingSend := pendingSend s - 1\<rparr>))
         | Deliver now ev \<Rightarrow>
             if managers s = [] then None else Some (dispatch now ev s)
         | Unmount \<Rightarrow> Some (unmount s)))"

fun run :: "config \<Rightarrow> action list \<Rightarrow> state \<Rightarrow> state option" where
  "run cfg [] s = Some s"
| "run cfg (a # as) s = (case exec cfg a s of None \<Rightarrow> None | Some s' \<Rightarrow> run cfg as s')"

inductive reachable :: "config \<Rightarrow> state \<Rightarrow> bool" for cfg :: config where
  start: "reachable cfg initial"
| turn: "reachable cfg s \<Longrightarrow> exec cfg a s = Some s' \<Longrightarrow> reachable cfg s'"

text \<open>Counting the backend exchanges and the constructed managers in the effects.\<close>

fun is_exchange :: "effect \<Rightarrow> bool" where
  "is_exchange (Post_sessions a u) = True"
| "is_exchange e = False"

fun is_construction :: "effect \<Rightarrow> bool" where
  "is_construction (New_manager m) = True"
| "is_construction e = False"

definition exchanges :: "state \<Rightarrow> nat" where
  "exchanges s = length (filter is_exchange (effects s))"

definition constructions :: "state \<Rightarrow> nat" where
  "constructions s = length (filter is_construction (effects s))"


subsection \<open>Concrete configurations and runs\<close>

text \<open>
  A configured build (a key, and an avatar id in place of the placeholder), the session data
  of a successful exchange, and four runs: up to the pending \<open>connect\<close>; up to the retained
  manager; on to a sent message; and a failed \<open>connect\<close> followed by a second attempt.
\<close>

definition demo_config :: config where
  "demo_config = \<lparr>platformEnv = \<lparr>VITE_PLATFORM_API_KEY = Some ''sk_live_1'',
     VITE_PLATFORM_API_URL = None\<rparr>, DEMO_AVATAR_ID = ''avatar-1''\<rparr>"

definition demo_json :: json where
  "demo_json = \<lparr>error_field = None, opaque = ''s1''\<rparr>"

definition demo_start :: "action list" where
  "demo_start = [Click_start, Fetch_settles (Fetch_response True (Inr demo_json))]"

definition demo_session :: "action list" where
  "demo_session = demo_start @ [Connect_settles (Manager 0 demo_json) Resolved]"

definition demo_chat :: "action list" where
  "demo_chat = demo_session @ [Type ''hi'', Click_send 7]"

definition demo_retry :: "action list" where
  "demo_retry = demo_start @ [Connect_settles (Manager 0 demo_json) (Rejected (Error ''timeout''))]
     @ demo_start"

definition no_key_config :: config where
  "no_key_config = \<lparr>platformEnv = \<lparr>VITE_PLATFORM_API_KEY = None,
     VITE_PLATFORM_API_URL = None\<rparr>, DEMO_AVATAR_ID = ''avatar-1''\<rparr>"

definition empty_key_env :: env where
  "empty_key_env = \<lparr>VITE_PLATFORM_API_KEY = Some [], VITE_PLATFORM_API_URL = None\<rparr>"

text \<open>The state that the run \<open>demo_start\<close> reaches: \<open>connect\<close> is pending.\<close>

definition demo_connecting :: state where
  "demo_connecting = initial\<lparr>isInitializing := True,
     effects := [Post_sessions ''avatar-1'' ''demo-user'', New_manager (Manager 0 demo_json),
        On (Manager 0 demo_json) ''avatar.status'', On (Manager 0 demo_json) ''avatar.input'',
        On (Manager 0 demo_json) ''avatar.response'', On (Manager 0 demo_json) ''avatar.error'',
        Connect (Manager 0 demo_json)],
     pendingConnect := [Manager 0 demo_json], managers := [Manager 0 demo_json]\<rparr>"

text \<open>The state that the run \<open>demo_session\<close> reaches.\<close>

definition demo_connected :: state where
  "demo_connected = initial\<lparr>sessionManagerRef := Some (Manager 0 demo_json),
     effects := [Post_sessions ''avatar-1'' ''demo-user'', New_manager (Manager 0 demo_json),
        On (Manager 0 demo_json) ''avatar.status'', On (Manager 0 demo_json) ''avatar.input'',
        On (Manager 0 demo_json) ''avatar.response'', On (Manager 0 demo_json) ''avatar.error'',
        Connect (Manager 0 demo_json),
        Toast_success ''Session initialized'' (Some ''You can now chat with the avatar'')],
     managers := [Manager 0 demo_json]\<rparr>"

text \<open>The input box after the user has typed \<open>t\<close>.\<close>

definition typed :: "string \<Rightarrow> state \<Rightarrow> state" where
  "typed t s = s\<lparr>input := t\<rparr>"


subsection \<open>A state in which nothing has been started\<close>

text \<open>Without a usable key nothing is ever started.\<close>

definition idle :: "state \<Rightarrow> bool" where
  "idle s = (sessionManagerRef s = None \<and> pendingFetch s = 0 \<and> pendingConnect s = [] \<and>
     managers s = [] \<and> filter is_exchange (effects s) = [])"


subsection \<open>A state in which a manager is retained and no initialization is under way\<close>

definition settled_down :: "state \<Rightarrow> bool" where
  "settled_down s = (sessionManagerRef s \<noteq> None \<and> pendingFetch s = 0 \<and> pendingConnect s = [])"

section \<open>Properties of the model\<close>

lemma dropWhile_all: "(\<forall>c\<in>set (dropWhile P xs). P c) = (\<forall>c\<in>set xs. P c)"
  by (induction xs) auto

lemma trim_eq_Nil: "trim s = [] \<longleftrightarrow> (\<forall>c\<in>set s. isWhiteSpace c)"
  by (simp add: trim_def dropWhile_eq_Nil_conv dropWhile_all)

lemmas segment_defs =
  initializeSession_def initializeSession_catch_def initializeSession_fetched_def
  initializeSession_connected_def on_avatar_status_def on_avatar_input_def
  on_avatar_response_def on_avatar_error_def sendMessage_def sendMessage_settled_def
  unmount_def emit_def Let_def

lemmas segment_splits =
  if_splits option.splits sum.splits fetch_outcome.splits settled.splits thrown.splits

lemma dispatch_ref: "sessionManagerRef (dispatch now ev s) = sessionManagerRef s"
  by (cases ev) (simp_all add: segment_defs)

lemma dispatch_isSending: "isSending (dispatch now ev s) = isSending s"
  by (cases ev) (simp_all add: segment_defs)

lemma exec_sending_has_handle:
  assumes "exec cfg a s = Some s'" and "isSending s \<longrightarrow> sessionManagerRef s \<noteq> None"
  shows "isSending s' \<longrightarrow> sessionManagerRef s' \<noteq> None"
  using assms
  by (cases a) (auto simp: segment_defs dispatch_ref dispatch_isSending split: segment_splits)

lemma reachable_sending_has_handle:
  "reachable cfg s \<Longrightarrow> isSending s \<longrightarrow> sessionManagerRef s \<noteq> None"
proof (induction rule: reachable.induct)
  case start
  show ?case by (simp add: initial_def)
next
  case (turn s a s')
  then show ?case using exec_sending_has_handle by blast
qed

lemma exec_handle_stays:
  assumes "exec cfg a s = Some s'" and "sessionManagerRef s \<noteq> None"
  shows "sessionManagerRef s' \<noteq> None"
  using assms
  by (cases a) (auto simp: segment_defs dispatch_ref split: segment_splits)

lemma dispatch_effects_exchange:
  "filter is_exchange (effects (dispatch now ev s)) = filter is_exchange (effects s)"
  by (cases ev) (simp_all add: segment_defs)

lemma exec_no_exchange_with_handle:
  assumes "exec cfg a s = Some s'" and "sessionManagerRef s \<noteq> None"
  shows "exchanges s' = exchanges s"
  using assms
  by (cases a)
     (auto simp: segment_defs exchanges_def dispatch_effects_exchange split: segment_splits)

lemma run_no_exchange_with_handle:
  "run cfg as s = Some s' \<Longrightarrow> sessionManagerRef s \<noteq> None \<Longrightarrow>
     exchanges s' = exchanges s \<and> sessionManagerRef s' \<noteq> None"
proof (induction as arbitrary: s)
  case Nil
  then show ?case by simp
next
  case (Cons a as)
  from Cons.prems(1) obtain s1 where s1: "exec cfg a s = Some s1" and rest: "run cfg as s1 = Some s'"
    by (auto split: option.splits)
  from s1 Cons.prems(2) have "sessionManagerRef s1 \<noteq> None" and "exchanges s1 = exchanges s"
    using exec_handle_stays exec_no_exchange_with_handle by blast+
  with Cons.IH [OF rest] show ?case by simp
qed

lemma dispatch_messages: "prefix (messages s) (messages (dispatch now ev s))"
  by (cases ev) (simp_all add: segment_defs)

lemma exec_messages_grow:
  assumes "exec cfg a s = Some s'"
  shows "prefix (messages s) (messages s')"
  using assms
  by (cases a) (auto simp: segment_defs dispatch_messages split: segment_splits)

lemma run_messages_grow:
  "run cfg as s = Some s' \<Longrightarrow> prefix (messages s) (messages s')"
proof (induction as arbitrary: s)
  case Nil
  then show ?case by simp
next
  case (Cons a as)
  from Cons.prems obtain s1 where s1: "exec cfg a s = Some s1" and rest: "run cfg as s1 = Some s'"
    by (auto split: option.splits)
  have "prefix (messages s) (messages s1)" using s1 by (rule exec_messages_grow)
  moreover have "prefix (messages s1) (messages s')" using rest by (rule Cons.IH)
  ultimately show ?case by (rule prefix_order.trans)
qed

lemma exec_idle:
  assumes "exec cfg a s = Some s'" and "idle s" and "\<not> isPlatformSDKConfigured (platformEnv cfg)"
  shows "idle s'"
  using assms
  by (cases a) (auto simp: segment_defs idle_def split: segment_splits)

lemma reachable_idle:
  "reachable cfg s \<Longrightarrow> \<not> isPlatformSDKConfigured (platformEnv cfg) \<Longrightarrow> idle s"
proof (induction rule: reachable.induct)
  case start
  show ?case by (simp add: idle_def initial_def)
next
  case (turn s a s')
  then show ?case using exec_idle by blast
qed

lemmas demo_defs = demo_config_def demo_json_def demo_start_def demo_session_def
  demo_chat_def demo_retry_def no_key_config_def empty_key_env_def initial_def
  isPlatformSDKConfigured_def truthy_def

lemma trim_examples: "trim ''hi'' = ''hi''" "trim ''   '' = []" "trim [] = []"
  by (simp_all add: trim_def isWhiteSpace_def)

lemma dispatch_waiting:
  "isWaitingForResponse s \<Longrightarrow> \<not> isWaitingForResponse (dispatch now ev s) \<Longrightarrow>
     (\<exists>d. ev = Avatar_response d) \<or> (\<exists>d. ev = Avatar_error d)"
  by (cases ev) (auto simp: segment_defs split: segment_splits)

lemma demo_connected_run: "run demo_config demo_session initial = Some demo_connected"
  by (simp add: demo_defs demo_connected_def segment_defs)

lemma message_names_variable: "sublist ''VITE_PLATFORM_API_KEY'' not_configured_message"
  unfolding sublist_def not_configured_message_def
  by (rule exI [of _ "''SoulCypher Platform API key not configured. Set ''"],
      rule exI [of _ "'' in your .env.local file. Get your API key from https://dev.soulcypher.ai''"])
     simp

lemma dispatch_initializing:
  "isInitializing s \<Longrightarrow> \<not> isInitializing (dispatch now ev s) \<Longrightarrow>
     \<exists>d. ev = Avatar_status d \<and> data_status d = Some ''ready''"
  by (cases ev) (auto simp: segment_defs split: segment_splits)

lemma dispatch_constructions:
  "filter is_construction (effects (dispatch now ev s)) = filter is_construction (effects s)"
  by (cases ev) (simp_all add: segment_defs)

lemma dispatch_pending:
  "pendingFetch (dispatch now ev s) = pendingFetch s"
  "pendingConnect (dispatch now ev s) = pendingConnect s"
  by (cases ev; simp add: segment_defs)+

lemma exec_settled_down:
  assumes "exec cfg a s = Some s'" and "settled_down s"
  shows "settled_down s' \<and> sessionManagerRef s' = sessionManagerRef s \<and>
         constructions s' = constructions s"
  using assms
  by (cases a)
     (auto simp: segment_defs settled_down_def constructions_def dispatch_ref
        dispatch_constructions dispatch_pending split: segment_splits)

lemma run_settled_down:
  "run cfg as s = Some s' \<Longrightarrow> settled_down s \<Longrightarrow>
     sessionManagerRef s' = sessionManagerRef s \<and> constructions s' = constructions s"
proof (induction as arbitrary: s)
  case Nil
  then show ?case by simp
next
  case (Cons a as)
  from Cons.prems(1) obtain s1 where s1: "exec cfg a s = Some s1" and rest: "run cfg as s1 = Some s'"
    by (auto split: option.splits)
  from exec_settled_down [OF s1 Cons.prems(2)]
  have "settled_down s1" and "sessionManagerRef s1 = sessionManagerRef s"
    and "constructions s1 = constructions s"
    by blast+
  with Cons.IH [OF rest] show ?case by simp
qed

lemma demo_connecting_run: "run demo_config demo_start initial = Some demo_connecting"
  by (simp add: demo_defs demo_connecting_def segment_defs)

lemma demo_connecting_turn:
  "exec demo_config (Connect_settles (Manager 0 demo_json) Resolved) demo_connecting
     = Some demo_connected"
  by (simp add: demo_connecting_def demo_connected_def initial_def segment_defs)

lemma trim_padded: "trim '' hi '' = ''hi''"
  by (simp add: trim_def isWhiteSpace_def)


section \<open>The properties of the specification, checked on the model\<close>

subsection \<open>C1: when the initializing flag is cleared\<close>

text \<open>
  C1, as stated, fails. In the run below the backend exchange succeeds and \<open>connect\<close>
  resolves; no status event is delivered at all. The flag is set while \<open>connect\<close> is pending
  and is clear once \<open>initializeSession\<close> has returned: the statement after
  \<open>await manager.connect()\<close> clears it.
\<close>

theorem initializing_cleared_at_return_counterexample:
  "map_option isInitializing (run demo_config demo_start initial) = Some True \<and>
   map_option isInitializing (run demo_config demo_session initial) = Some False"
  by (simp add: demo_defs segment_defs)

text \<open>
  C1, as amended: in a run of \<open>initializeSession\<close> whose backend exchange succeeds, the
  initializing flag is cleared when \<open>connect\<close> resolves, by \<open>initializeSession\<close> itself at
  its return, which also retains the manager; a status event whose status is \<open>ready\<close> clears
  the flag as well, and a status event with any other status, or with none, leaves the flag
  as it is. Nothing else clears it but the failure paths: a turn of the event loop that
  takes the flag from set to clear is a \<open>connect\<close> that resolves, a \<open>connect\<close> that fails, a
  backend exchange that fails, or a status event with status \<open>ready\<close>.
\<close>

theorem initializing_cleared_on_connect_and_on_ready:
  "isInitializing (initializeSession_connected m Resolved s) = False \<and>
   sessionManagerRef (initializeSession_connected m Resolved s) = Some m \<and>
   (data_status d = Some ''ready'' \<longrightarrow> isInitializing (on_avatar_status d s) = False) \<and>
   (data_status d \<noteq> Some ''ready'' \<longrightarrow> isInitializing (on_avatar_status d s) = isInitializing s) \<and>
   (exec cfg a s = Some s' \<and> isInitializing s \<and> \<not> isInitializing s' \<longrightarrow>
      (\<exists>h. a = Connect_settles h Resolved) \<or>
      (\<exists>h err. a = Connect_settles h (Rejected err)) \<or>
      (\<exists>r. a = Fetch_settles r \<and> (\<forall>j. r \<noteq> Fetch_response True (Inr j))) \<or>
      (\<exists>t p. a = Deliver t (Avatar_status p) \<and> data_status p = Some ''ready''))"
proof -
  have only: "(\<exists>h. a = Connect_settles h Resolved) \<or>
      (\<exists>h err. a = Connect_settles h (Rejected err)) \<or>
      (\<exists>r. a = Fetch_settles r \<and> (\<forall>j. r \<noteq> Fetch_response True (Inr j))) \<or>
      (\<exists>t p. a = Deliver t (Avatar_status p) \<and> data_status p = Some ''ready'')"
    if "exec cfg a s = Some s'" "isInitializing s" "\<not> isInitializing s'"
    using that
    by (cases a) (auto simp: segment_defs split: segment_splits dest: dispatch_initializing)
  show ?thesis
    using only by (simp add: segment_defs)
qed

theorem initializing_cleared_on_connect_and_on_ready_witness:
  "exec demo_config (Connect_settles (Manager 0 demo_json) Resolved) demo_connecting
     = Some demo_connected \<and>
   isInitializing demo_connecting \<and> \<not> isInitializing demo_connected \<and>
   isInitializing (initializeSession_connected (Manager 0 demo_json) Resolved demo_connecting) = False \<and>
   isInitializing (on_avatar_status (Some \<lparr>status = Some ''ready''\<rparr>) demo_connecting) = False \<and>
   isInitializing (on_avatar_status (Some \<lparr>status = Some ''initializing''\<rparr>) demo_connecting) = True \<and>
   isInitializing (on_avatar_status None demo_connecting) = True \<and>
   ((\<exists>h. Connect_settles (Manager 0 demo_json) Resolved = Connect_settles h Resolved) \<or>
    (\<exists>h err. Connect_settles (Manager 0 demo_json) Resolved = Connect_settles h (Rejected err)) \<or>
    (\<exists>r. Connect_settles (Manager 0 demo_json) Resolved = Fetch_settles r \<and>
          (\<forall>j. r \<noteq> Fetch_response True (Inr j))) \<or>
    (\<exists>t p. Connect_settles (Manager 0 demo_json) Resolved = Deliver t (Avatar_status p) \<and>
            data_status p = Some ''ready''))"
proof -
  have i: "isInitializing demo_connecting" "\<not> isInitializing demo_connected"
    by (simp_all add: demo_connecting_def demo_connected_def initial_def)
  note t = demo_connecting_turn
  note ready = initializing_cleared_on_connect_and_on_ready
      [of "Manager 0 demo_json" demo_connecting "Some \<lparr>status = Some ''ready''\<rparr>"
          demo_config "Connect_settles (Manager 0 demo_json) Resolved" demo_connected]
  note other = initializing_cleared_on_connect_and_on_ready
      [of "Manager 0 demo_json" demo_connecting "Some \<lparr>status = Some ''initializing''\<rparr>"
          demo_config "Connect_settles (Manager 0 demo_json) Resolved" demo_connected]
  note none = initializing_cleared_on_connect_and_on_ready
      [of "Manager 0 demo_json" demo_connecting None
          demo_config "Connect_settles (Manager 0 demo_json) Resolved" demo_connected]
  have d: "data_status (Some \<lparr>status = Some ''ready''\<rparr>) = Some ''ready''"
    "data_status (Some \<lparr>status = Some ''initializing''\<rparr>) \<noteq> Some ''ready''"
    "data_status None \<noteq> Some ''ready''"
    by (simp_all add: data_status_def)
  from ready d(1) have a: "isInitializing (on_avatar_status (Some \<lparr>status = Some ''ready''\<rparr>) demo_connecting) = False"
    and c: "isInitializing (initializeSession_connected (Manager 0 demo_json) Resolved demo_connecting) = False"
    by blast+
  from other d(2) i(1) have b: "isInitializing (on_avatar_status (Some \<lparr>status = Some ''initializing''\<rparr>) demo_connecting) = True"
    by simp
  from none d(3) i(1) have n: "isInitializing (on_avatar_status None demo_connecting) = True"
    by simp
  from ready t i have only: "(\<exists>h. Connect_settles (Manager 0 demo_json) Resolved = Connect_settles h Resolved) \<or>
    (\<exists>h err. Connect_settles (Manager 0 demo_json) Resolved = Connect_settles h (Rejected err)) \<or>
    (\<exists>r. Connect_settles (Manager 0 demo_json) Resolved = Fetch_settles r \<and>
          (\<forall>j. r \<noteq> Fetch_response True (Inr j))) \<or>
    (\<exists>t p. Connect_settles (Manager 0 demo_json) Resolved = Deliver t (Avatar_status p) \<and>
            data_status p = Some ''ready'')"
    by blast
  from t i a b c n only show ?thesis by blast
qed


subsection \<open>C2: the flags when the forward call settles\<close>

text \<open>
  C2, as stated, fails in its second half. After a message has been sent the controller
  awaits a response; when the forward call then fails, the \<open>catch\<close> block clears the
  awaitingResponse flag, although no response or error event has been observed.
\<close>

theorem forward_failure_clears_awaiting_counterexample:
  "map_option isWaitingForResponse (run demo_config demo_chat initial) = Some True \<and>
   map_option isWaitingForResponse
     (run demo_config (demo_chat @ [Send_settles (Rejected (Error ''offline''))]) initial) = Some False"
  by (simp add: demo_defs segment_defs trim_examples)

text \<open>
  C2, as amended: the sending flag is cleared when the forward call settles, whether it
  succeeds or fails. A forward call that succeeds leaves the awaitingResponse flag as it is; a
  forward call that fails clears it, and so do a response event and an error event. Nothing
  else clears it: a turn of the event loop that takes the flag from set to clear is the
  failure of a forward call, a response event or an error event.
\<close>

theorem sending_cleared_when_forward_settles:
  "isSending (sendMessage_settled r s) = False \<and>
   isWaitingForResponse (sendMessage_settled Resolved s) = isWaitingForResponse s \<and>
   isWaitingForResponse (sendMessage_settled (Rejected e) s) = False \<and>
   isWaitingForResponse (on_avatar_response now d s) = False \<and>
   isWaitingForResponse (on_avatar_error d' s) = False \<and>
   (exec cfg a s = Some s' \<and> isWaitingForResponse s \<and> \<not> isWaitingForResponse s' \<longrightarrow>
      (\<exists>err. a = Send_settles (Rejected err)) \<or>
      (\<exists>t p. a = Deliver t (Avatar_response p)) \<or>
      (\<exists>t p. a = Deliver t (Avatar_error p)))"
proof -
  have settle: "isSending (sendMessage_settled r s) = False"
    by (cases r) (simp_all add: sendMessage_settled_def)
  have only: "(\<exists>err. a = Send_settles (Rejected err)) \<or>
      (\<exists>t p. a = Deliver t (Avatar_response p)) \<or> (\<exists>t p. a = Deliver t (Avatar_error p))"
    if "exec cfg a s = Some s'" "isWaitingForResponse s" "\<not> isWaitingForResponse s'"
    using that
    by (cases a) (auto simp: segment_defs split: segment_splits dest: dispatch_waiting)
  show ?thesis
    using settle only
    by (simp add: sendMessage_settled_def on_avatar_response_def on_avatar_error_def)
qed

theorem sending_cleared_when_forward_settles_witness:
  "exec demo_config (Deliver 9 (Avatar_response None))
      (initial\<lparr>managers := [Manager 0 demo_json], isWaitingForResponse := True\<rparr>)
     = Some (on_avatar_response 9 None
         (initial\<lparr>managers := [Manager 0 demo_json], isWaitingForResponse := True\<rparr>)) \<and>
   isSending (sendMessage_settled Resolved
      (initial\<lparr>managers := [Manager 0 demo_json], isWaitingForResponse := True\<rparr>)) = False \<and>
   isWaitingForResponse (sendMessage_settled Resolved
      (initial\<lparr>managers := [Manager 0 demo_json], isWaitingForResponse := True\<rparr>)) = True \<and>
   ((\<exists>err. Deliver 9 (Avatar_response None) = Send_settles (Rejected err)) \<or>
    (\<exists>t p. Deliver 9 (Avatar_response None) = Deliver t (Avatar_response p)) \<or>
    (\<exists>t p. Deliver 9 (Avatar_response None) = Deliver t (Avatar_error p)))"
  using sending_cleared_when_forward_settles
          [of Resolved "initial\<lparr>managers := [Manager 0 demo_json], isWaitingForResponse := True\<rparr>"
              NonError 9 None None demo_config "Deliver 9 (Avatar_response None)"
              "on_avatar_response 9 None
                 (initial\<lparr>managers := [Manager 0 demo_json], isWaitingForResponse := True\<rparr>)"]
  by (simp add: initial_def on_avatar_response_def)


subsection \<open>C3: calling initialize again\<close>

text \<open>
  C3, as stated, fails. In the run below no teardown happens. The first call of
  \<open>initializeSession\<close> gets its session data and constructs a manager, whose \<open>connect\<close>
  then fails, so no manager is retained; the second call passes the guard again. The
  backend exchange has been performed twice and two managers have been constructed.
\<close>

theorem retry_repeats_exchange_counterexample:
  "map_option exchanges (run demo_config demo_retry initial) = Some 2 \<and>
   map_option constructions (run demo_config demo_retry initial) = Some 2 \<and>
   Unmount \<notin> set demo_retry"
  by (simp add: demo_defs segment_defs exchanges_def constructions_def)

text \<open>
  C3, as amended: a call of \<open>initializeSession\<close> made while a manager is retained does
  nothing but give the informational signal: it performs no backend exchange, constructs no
  manager and leaves the retained manager in place. From then on the controller is never
  without a retained manager, and no run of the controller performs a backend exchange
  again. When, in addition, no initialization is under way (no exchange and no \<open>connect\<close> is
  pending), every later run keeps that same manager retained and constructs no manager.
\<close>

theorem initialize_with_handle_is_noop:
  assumes "sessionManagerRef s \<noteq> None"
  shows "initializeSession cfg s = emit [Toast_info ''Session already initialized''] s \<and>
         exchanges (initializeSession cfg s) = exchanges s \<and>
         constructions (initializeSession cfg s) = constructions s \<and>
         sessionManagerRef (initializeSession cfg s) = sessionManagerRef s \<and>
         (\<forall>as s'. run cfg as s = Some s' \<longrightarrow>
            exchanges s' = exchanges s \<and> sessionManagerRef s' \<noteq> None) \<and>
         (pendingFetch s = 0 \<and> pendingConnect s = [] \<longrightarrow>
            (\<forall>as s'. run cfg as s = Some s' \<longrightarrow>
               sessionManagerRef s' = sessionManagerRef s \<and> constructions s' = constructions s))"
proof -
  have call: "initializeSession cfg s = emit [Toast_info ''Session already initialized''] s"
    using assms by (simp add: initializeSession_def)
  have later: "\<forall>as s'. run cfg as s = Some s' \<longrightarrow>
      exchanges s' = exchanges s \<and> sessionManagerRef s' \<noteq> None"
    using assms run_no_exchange_with_handle by blast
  have alone: "\<forall>as s'. run cfg as s = Some s' \<longrightarrow>
      sessionManagerRef s' = sessionManagerRef s \<and> constructions s' = constructions s"
    if "pendingFetch s = 0" "pendingConnect s = []"
  proof -
    from assms that have "settled_down s" by (simp add: settled_down_def)
    then show ?thesis using run_settled_down by blast
  qed
  show ?thesis
    using later alone by (simp add: call emit_def exchanges_def constructions_def)
qed

theorem initialize_with_handle_is_noop_witness:
  "sessionManagerRef demo_connected \<noteq> None \<and>
   pendingFetch demo_connected = 0 \<and> pendingConnect demo_connected = [] \<and>
   run demo_config [Click_start] demo_connected
     = Some (emit [Toast_info ''Session already initialized''] demo_connected) \<and>
   exchanges (emit [Toast_info ''Session already initialized''] demo_connected) = 1 \<and>
   constructions (emit [Toast_info ''Session already initialized''] demo_connected) = 1 \<and>
   sessionManagerRef (emit [Toast_info ''Session already initialized''] demo_connected)
     = Some (Manager 0 demo_json)"
proof -
  have h: "sessionManagerRef demo_connected \<noteq> None"
    by (simp add: demo_connected_def)
  have m: "mounted demo_connected"
    by (simp add: demo_connected_def initial_def)
  have p: "pendingFetch demo_connected = 0" "pendingConnect demo_connected = []"
    by (simp_all add: demo_connected_def initial_def)
  have e: "exchanges demo_connected = 1" "constructions demo_connected = 1"
    "sessionManagerRef demo_connected = Some (Manager 0 demo_json)"
    by (simp_all add: demo_connected_def exchanges_def constructions_def)
  note noop = initialize_with_handle_is_noop [OF h, of demo_config]
  from noop have call: "initializeSession demo_config demo_connected
      = emit [Toast_info ''Session already initialized''] demo_connected"
    and later: "\<And>as s'. run demo_config as demo_connected = Some s' \<Longrightarrow>
      exchanges s' = exchanges demo_connected"
    by blast+
  from noop p have alone: "\<And>as s'. run demo_config as demo_connected = Some s' \<Longrightarrow>
      sessionManagerRef s' = sessionManagerRef demo_connected \<and>
      constructions s' = constructions demo_connected"
    by blast
  have r: "run demo_config [Click_start] demo_connected
     = Some (emit [Toast_info ''Session already initialized''] demo_connected)"
    using m call by simp
  have "exchanges (emit [Toast_info ''Session already initialized''] demo_connected) = 1"
    using later [OF r] e(1) by (simp only:)
  moreover have "constructions (emit [Toast_info ''Session already initialized''] demo_connected) = 1"
    using alone [OF r] e(2) by (simp only:)
  moreover have "sessionManagerRef (emit [Toast_info ''Session already initialized''] demo_connected)
     = Some (Manager 0 demo_json)"
    using alone [OF r] e(3) by (simp only:)
  ultimately show ?thesis using h p r by blast
qed


subsection \<open>C4: the client singleton\<close>

text \<open>
  C4, as stated, fails in its "only if" half. A key that is present and is the empty string
  is not the placeholder, and the first call of \<open>getPlatformSDK\<close> fails on it all the same:
  \<open>!apiKey\<close> holds for the empty string.
\<close>

theorem empty_key_rejected_counterexample:
  "VITE_PLATFORM_API_KEY empty_key_env \<noteq> None \<and>
   VITE_PLATFORM_API_KEY empty_key_env \<noteq> Some ''sk_xxxxx'' \<and>
   getPlatformSDK empty_key_env None = (Inl (Error not_configured_message), None)"
  by (simp add: empty_key_env_def getPlatformSDK_def)

text \<open>
  C4, as amended: the first call of \<open>getPlatformSDK\<close> fails if and only if the key is absent,
  empty or the placeholder \<open>sk_xxxxx\<close>; the error's message names the variable
  \<open>VITE_PLATFORM_API_KEY\<close> and nothing is cached. Otherwise the call constructs the client
  with that key and the configured base URL, or \<open>https://api.soulcypher.ai\<close> when the base
  URL is absent or empty, and caches it. A call that finds a cached client returns it,
  whatever the environment says.
\<close>

theorem getPlatformSDK_first_call_and_cache:
  "(isl (fst (getPlatformSDK e None)) \<longleftrightarrow>
      VITE_PLATFORM_API_KEY e = None \<or> VITE_PLATFORM_API_KEY e = Some [] \<or>
      VITE_PLATFORM_API_KEY e = Some ''sk_xxxxx'') \<and>
   (isl (fst (getPlatformSDK e None)) \<longrightarrow>
      getPlatformSDK e None = (Inl (Error not_configured_message), None) \<and>
      sublist ''VITE_PLATFORM_API_KEY'' not_configured_message) \<and>
   (VITE_PLATFORM_API_KEY e = Some k \<and> k \<noteq> [] \<and> k \<noteq> ''sk_xxxxx'' \<longrightarrow>
      (VITE_PLATFORM_API_URL e = None \<or> VITE_PLATFORM_API_URL e = Some [] \<longrightarrow>
         getPlatformSDK e None =
           (Inr \<lparr>apiKey = k, baseUrl = ''https://api.soulcypher.ai''\<rparr>,
            Some \<lparr>apiKey = k, baseUrl = ''https://api.soulcypher.ai''\<rparr>)) \<and>
      (VITE_PLATFORM_API_URL e = Some u \<and> u \<noteq> [] \<longrightarrow>
         getPlatformSDK e None = (Inr \<lparr>apiKey = k, baseUrl = u\<rparr>, Some \<lparr>apiKey = k, baseUrl = u\<rparr>))) \<and>
   getPlatformSDK e' (Some c) = (Inr c, Some c)"
  using message_names_variable
  by (auto simp: getPlatformSDK_def or_else_def Let_def split: option.splits)

theorem getPlatformSDK_first_call_and_cache_witness:
  "getPlatformSDK (platformEnv demo_config) None =
     (Inr \<lparr>apiKey = ''sk_live_1'', baseUrl = ''https://api.soulcypher.ai''\<rparr>,
      Some \<lparr>apiKey = ''sk_live_1'', baseUrl = ''https://api.soulcypher.ai''\<rparr>) \<and>
   getPlatformSDK (platformEnv no_key_config)
     (Some \<lparr>apiKey = ''sk_live_1'', baseUrl = ''https://api.soulcypher.ai''\<rparr>) =
     (Inr \<lparr>apiKey = ''sk_live_1'', baseUrl = ''https://api.soulcypher.ai''\<rparr>,
      Some \<lparr>apiKey = ''sk_live_1'', baseUrl = ''https://api.soulcypher.ai''\<rparr>) \<and>
   isl (fst (getPlatformSDK (platformEnv no_key_config) None)) \<and>
   getPlatformSDK (platformEnv no_key_config) None = (Inl (Error not_configured_message), None)"
  using getPlatformSDK_first_call_and_cache
          [of "platformEnv demo_config" "''sk_live_1''" u "platformEnv no_key_config"
              "\<lparr>apiKey = ''sk_live_1'', baseUrl = ''https://api.soulcypher.ai''\<rparr>"]
        getPlatformSDK_first_call_and_cache
          [of "platformEnv no_key_config" k u e' c]
  by (simp add: demo_config_def no_key_config_def)


subsection \<open>C5: the configuration check\<close>

text \<open>
  C5, as stated, fails in its converse. A key that is present and is the empty string
  differs from the placeholder, and \<open>isPlatformSDKConfigured\<close> returns false on it.
\<close>

theorem empty_key_not_configured_counterexample:
  "VITE_PLATFORM_API_KEY empty_key_env \<noteq> None \<and>
   VITE_PLATFORM_API_KEY empty_key_env \<noteq> Some ''sk_xxxxx'' \<and>
   isPlatformSDKConfigured empty_key_env = False"
  by (simp add: empty_key_env_def isPlatformSDKConfigured_def truthy_def)

text \<open>
  C5, as amended: \<open>isPlatformSDKConfigured\<close> returns true if and only if the key is present,
  not empty and not the placeholder. Whenever it returns false (the key is absent, empty or
  the placeholder), a call of \<open>initializeSession\<close> in any state the controller can reach
  only gives the error signal that the platform API key is not configured: no request is
  sent, none is pending, and none has ever been sent.
\<close>

theorem unconfigured_initialize_fails_without_network:
  "(isPlatformSDKConfigured (platformEnv cfg) \<longleftrightarrow>
      (\<exists>k. VITE_PLATFORM_API_KEY (platformEnv cfg) = Some k \<and> k \<noteq> [] \<and> k \<noteq> ''sk_xxxxx'')) \<and>
   (\<not> isPlatformSDKConfigured (platformEnv cfg) \<and> reachable cfg s \<longrightarrow>
      initializeSession cfg s =
        emit [Toast_error ''Platform API key not configured''
                (Some ''Set VITE_PLATFORM_API_KEY in .env.local'')] s \<and>
      exchanges (initializeSession cfg s) = 0 \<and>
      pendingFetch (initializeSession cfg s) = 0)"
proof -
  have pred: "isPlatformSDKConfigured (platformEnv cfg) \<longleftrightarrow>
      (\<exists>k. VITE_PLATFORM_API_KEY (platformEnv cfg) = Some k \<and> k \<noteq> [] \<and> k \<noteq> ''sk_xxxxx'')"
    by (auto simp: isPlatformSDKConfigured_def truthy_def split: option.splits)
  have call: "initializeSession cfg s =
        emit [Toast_error ''Platform API key not configured''
                (Some ''Set VITE_PLATFORM_API_KEY in .env.local'')] s \<and>
      exchanges (initializeSession cfg s) = 0 \<and> pendingFetch (initializeSession cfg s) = 0"
    if "\<not> isPlatformSDKConfigured (platformEnv cfg)" "reachable cfg s"
  proof -
    from that have "idle s" using reachable_idle by blast
    with that(1) show ?thesis
      by (simp add: idle_def initializeSession_def emit_def exchanges_def)
  qed
  from pred call show ?thesis by blast
qed

theorem unconfigured_initialize_fails_without_network_witness:
  "isPlatformSDKConfigured (platformEnv no_key_config) = False \<and>
   isPlatformSDKConfigured (platformEnv demo_config) = True \<and>
   reachable no_key_config initial \<and>
   initializeSession no_key_config initial =
     emit [Toast_error ''Platform API key not configured''
             (Some ''Set VITE_PLATFORM_API_KEY in .env.local'')] initial \<and>
   exchanges (initializeSession no_key_config initial) = 0"
proof -
  have off: "\<not> isPlatformSDKConfigured (platformEnv no_key_config)"
    using unconfigured_initialize_fails_without_network [of no_key_config initial]
    by (simp add: no_key_config_def)
  have on: "isPlatformSDKConfigured (platformEnv demo_config)"
    using unconfigured_initialize_fails_without_network [of demo_config initial]
    by (simp add: demo_config_def)
  have r: "reachable no_key_config initial"
    by (rule reachable.start)
  from unconfigured_initialize_fails_without_network [of no_key_config initial] off r
  have "initializeSession no_key_config initial =
     emit [Toast_error ''Platform API key not configured''
             (Some ''Set VITE_PLATFORM_API_KEY in .env.local'')] initial"
    and "exchanges (initializeSession no_key_config initial) = 0"
    by blast+
  with off on r show ?thesis by blast
qed


subsection \<open>C6: sending nothing, or sending while a send is in flight\<close>

text \<open>
  C6: when the input is empty or consists of white space only, or when the sending flag is
  set, \<open>sendMessage\<close> returns at its first guard and changes nothing: the transcript is the
  same and no forward call is made (the effects are the same).
\<close>

theorem sendMessage_blank_or_busy_is_noop:
  assumes "(\<forall>c\<in>set (input s). isWhiteSpace c) \<or> isSending s"
  shows "sendMessage now s = s"
  using assms by (auto simp: sendMessage_def trim_eq_Nil)

theorem sendMessage_blank_or_busy_is_noop_witness:
  "sendMessage 3 (typed [] demo_connected) = typed [] demo_connected \<and>
   sendMessage 3 (typed ''   '' demo_connected) = typed ''   '' demo_connected \<and>
   sendMessage 3 (typed ''hi'' (demo_connected\<lparr>isSending := True\<rparr>))
     = typed ''hi'' (demo_connected\<lparr>isSending := True\<rparr>)"
  using sendMessage_blank_or_busy_is_noop [of "typed [] demo_connected" 3]
        sendMessage_blank_or_busy_is_noop [of "typed ''   '' demo_connected" 3]
        sendMessage_blank_or_busy_is_noop [of "typed ''hi'' (demo_connected\<lparr>isSending := True\<rparr>)" 3]
  by (simp add: typed_def isWhiteSpace_def)


subsection \<open>C7: sending without a session\<close>

text \<open>
  C7, as stated, fails. The text of three spaces is not empty, and no manager is retained in
  the initial state; \<open>sendMessage\<close> returns at its first guard, since the text is empty
  after trimming, and gives no signal at all.
\<close>

theorem blank_text_no_error_counterexample:
  "sessionManagerRef (typed ''   '' initial) = None \<and>
   input (typed ''   '' initial) \<noteq> [] \<and>
   run demo_config [Type ''   '', Click_send 3] initial = Some (typed ''   '' initial) \<and>
   effects (typed ''   '' initial) = []"
  by (simp add: typed_def initial_def sendMessage_def trim_examples)

text \<open>
  C7, as amended: in every state the controller can reach in which no manager is retained,
  \<open>sendMessage\<close> with a text that has a character other than white space only gives the
  error signal that the session is not initialized, and leaves the transcript as it is.
\<close>

theorem sendMessage_without_handle_fails:
  assumes "reachable cfg s" and "sessionManagerRef s = None" and "trim (input s) \<noteq> []"
  shows "sendMessage now s =
           emit [Toast_error ''Session not initialized'' (Some ''Click \"Start Session\" first'')] s \<and>
         messages (sendMessage now s) = messages s"
proof -
  from assms(1,2) have "\<not> isSending s"
    using reachable_sending_has_handle by blast
  with assms(2,3) show ?thesis
    by (simp add: sendMessage_def emit_def)
qed

theorem sendMessage_without_handle_fails_witness:
  "reachable demo_config (typed ''hi'' initial) \<and>
   sessionManagerRef (typed ''hi'' initial) = None \<and>
   trim (input (typed ''hi'' initial)) \<noteq> [] \<and>
   sendMessage 3 (typed ''hi'' initial) =
     emit [Toast_error ''Session not initialized'' (Some ''Click \"Start Session\" first'')]
       (typed ''hi'' initial) \<and>
   messages (sendMessage 3 (typed ''hi'' initial)) = []"
proof -
  have "exec demo_config (Type ''hi'') initial = Some (typed ''hi'' initial)"
    by (simp add: typed_def initial_def)
  with reachable.start have r: "reachable demo_config (typed ''hi'' initial)"
    by (rule reachable.turn)
  have h: "sessionManagerRef (typed ''hi'' initial) = None"
    by (simp add: typed_def initial_def)
  have t: "trim (input (typed ''hi'' initial)) \<noteq> []"
    by (simp add: typed_def trim_examples)
  have m: "messages (typed ''hi'' initial) = []"
    by (simp add: typed_def initial_def)
  note w = sendMessage_without_handle_fails [OF r h t, of 3]
  from w have e1: "sendMessage 3 (typed ''hi'' initial) =
     emit [Toast_error ''Session not initialized'' (Some ''Click \"Start Session\" first'')]
       (typed ''hi'' initial)"
    by (rule conjunct1)
  from w have "messages (sendMessage 3 (typed ''hi'' initial)) = messages (typed ''hi'' initial)"
    by (rule conjunct2)
  with m have e2: "messages (sendMessage 3 (typed ''hi'' initial)) = []"
    by (simp only:)
  from r h t e1 e2 show ?thesis by blast
qed


subsection \<open>C8: the optimistic append\<close>

text \<open>
  C8, as stated, fails. With a manager retained and no send in flight, the non-empty text
  \<open>" hi "\<close> passes the guards, and the appended message has the content \<open>"hi"\<close>, the text
  with the white space taken off both ends, not the text that was submitted; the non-empty
  text of three spaces does not pass the first guard, and nothing is appended.
\<close>

theorem trimmed_content_counterexample:
  "input (typed '' hi '' demo_connected) \<noteq> [] \<and>
   \<not> isSending (typed '' hi '' demo_connected) \<and>
   sessionManagerRef (typed '' hi '' demo_connected) \<noteq> None \<and>
   content (last (messages (sendMessage 7 (typed '' hi '' demo_connected)))) = ''hi'' \<and>
   content (last (messages (sendMessage 7 (typed '' hi '' demo_connected))))
     \<noteq> input (typed '' hi '' demo_connected) \<and>
   input (typed ''   '' demo_connected) \<noteq> [] \<and>
   messages (sendMessage 7 (typed ''   '' demo_connected)) = []"
  by (simp add: typed_def demo_connected_def initial_def sendMessage_def trim_padded trim_examples)

text \<open>
  C8, as amended: when \<open>sendMessage\<close> passes its guards (the text is not empty after
  trimming, no send is in flight, a manager is retained), its first segment appends a user
  message as the last entry of the transcript, sets the sending and awaitingResponse flags,
  and issues the forward call, which is then pending. The content of the message is the
  trimmed text (\<open>"hi"\<close> for \<open>" hi "\<close>), the same text that is forwarded. When the forward call
  fails, the transcript stays as it is, and whatever else happens afterwards, the transcript
  only grows.
\<close>

theorem sendMessage_optimistic_append:
  assumes "trim (input s) \<noteq> []" and "\<not> isSending s" and "sessionManagerRef s = Some m"
  shows "messages (sendMessage now s) =
           messages s @ [\<lparr>msg_id = now, role = User, content = trim (input s), timestamp = now\<rparr>] \<and>
         isSending (sendMessage now s) \<and>
         isWaitingForResponse (sendMessage now s) \<and>
         effects (sendMessage now s) = effects s @ [Forward m (trim (input s))] \<and>
         pendingSend (sendMessage now s) = Suc (pendingSend s) \<and>
         messages (sendMessage_settled (Rejected e) (sendMessage now s)) = messages (sendMessage now s) \<and>
         (\<forall>as s'. run cfg as (sendMessage now s) = Some s' \<longrightarrow>
            prefix (messages (sendMessage now s)) (messages s'))"
proof -
  have later: "\<forall>as s'. run cfg as (sendMessage now s) = Some s' \<longrightarrow>
      prefix (messages (sendMessage now s)) (messages s')"
    using run_messages_grow by blast
  have keep: "messages (sendMessage_settled (Rejected e) s1) = messages s1" for s1
    by (simp add: sendMessage_settled_def)
  from assms later keep show ?thesis
    by (simp add: sendMessage_def)
qed

theorem sendMessage_optimistic_append_witness:
  "last (messages (sendMessage 7 (typed '' hi '' demo_connected)))
     = \<lparr>msg_id = 7, role = User, content = ''hi'', timestamp = 7\<rparr> \<and>
   isSending (sendMessage 7 (typed '' hi '' demo_connected)) \<and>
   isWaitingForResponse (sendMessage 7 (typed '' hi '' demo_connected)) \<and>
   last (effects (sendMessage 7 (typed '' hi '' demo_connected))) = Forward (Manager 0 demo_json) ''hi'' \<and>
   messages (sendMessage_settled (Rejected NonError) (sendMessage 7 (typed '' hi '' demo_connected)))
     = [\<lparr>msg_id = 7, role = User, content = ''hi'', timestamp = 7\<rparr>] \<and>
   run demo_config [Send_settles (Rejected NonError)] (sendMessage 7 (typed '' hi '' demo_connected))
     = Some (sendMessage_settled (Rejected NonError)
         ((sendMessage 7 (typed '' hi '' demo_connected))\<lparr>pendingSend := 0\<rparr>)) \<and>
   prefix [\<lparr>msg_id = 7, role = User, content = ''hi'', timestamp = 7\<rparr>]
     (messages (sendMessage_settled (Rejected NonError)
         ((sendMessage 7 (typed '' hi '' demo_connected))\<lparr>pendingSend := 0\<rparr>)))"
proof -
  have a: "trim (input (typed '' hi '' demo_connected)) \<noteq> []"
    by (simp add: typed_def trim_padded)
  have b: "\<not> isSending (typed '' hi '' demo_connected)"
    by (simp add: typed_def demo_connected_def initial_def)
  have c: "sessionManagerRef (typed '' hi '' demo_connected) = Some (Manager 0 demo_json)"
    by (simp add: typed_def demo_connected_def)
  have d: "messages (typed '' hi '' demo_connected) = []"
    "input (typed '' hi '' demo_connected) = '' hi ''"
    "pendingSend (typed '' hi '' demo_connected) = 0"
    "mounted (typed '' hi '' demo_connected)"
    by (simp_all add: typed_def demo_connected_def initial_def)
  note w = sendMessage_optimistic_append [OF a b c, of 7 NonError demo_config]
  from w d have msgs: "messages (sendMessage 7 (typed '' hi '' demo_connected))
      = [\<lparr>msg_id = 7, role = User, content = ''hi'', timestamp = 7\<rparr>]"
    by (simp add: trim_padded)
  from w d have eff: "last (effects (sendMessage 7 (typed '' hi '' demo_connected)))
      = Forward (Manager 0 demo_json) ''hi''"
    by (simp add: trim_padded)
  from w have flags: "isSending (sendMessage 7 (typed '' hi '' demo_connected))"
    "isWaitingForResponse (sendMessage 7 (typed '' hi '' demo_connected))"
    by blast+
  from w msgs have keep:
    "messages (sendMessage_settled (Rejected NonError) (sendMessage 7 (typed '' hi '' demo_connected)))
      = [\<lparr>msg_id = 7, role = User, content = ''hi'', timestamp = 7\<rparr>]"
    by simp
  from w d have pend: "pendingSend (sendMessage 7 (typed '' hi '' demo_connected)) = Suc 0"
    by simp
  have mnt: "mounted (sendMessage 7 (typed '' hi '' demo_connected))"
    using a b c d(4) by (simp add: sendMessage_def)
  have r: "run demo_config [Send_settles (Rejected NonError)] (sendMessage 7 (typed '' hi '' demo_connected))
     = Some (sendMessage_settled (Rejected NonError)
         ((sendMessage 7 (typed '' hi '' demo_connected))\<lparr>pendingSend := 0\<rparr>))"
    using pend mnt by simp
  from w r have "prefix (messages (sendMessage 7 (typed '' hi '' demo_connected)))
     (messages (sendMessage_settled (Rejected NonError)
         ((sendMessage 7 (typed '' hi '' demo_connected))\<lparr>pendingSend := 0\<rparr>)))"
    by blast
  with msgs have grow: "prefix [\<lparr>msg_id = 7, role = User, content = ''hi'', timestamp = 7\<rparr>]
     (messages (sendMessage_settled (Rejected NonError)
         ((sendMessage 7 (typed '' hi '' demo_connected))\<lparr>pendingSend := 0\<rparr>)))"
    by (simp only:)
  from msgs have lst: "last (messages (sendMessage 7 (typed '' hi '' demo_connected)))
     = \<lparr>msg_id = 7, role = User, content = ''hi'', timestamp = 7\<rparr>"
    by simp
  from lst flags eff keep r grow show ?thesis by blast
qed


subsection \<open>C9: the response event\<close>

text \<open>
  C9, as stated, fails. A response event whose text field is present and is the empty
  string gets the placeholder as content, not the text field: \<open>event.data?.text || ...\<close>
  takes the default for the empty string too.
\<close>

theorem empty_response_text_counterexample:
  "data_response_text (Some \<lparr>response_text = Some []\<rparr>) = Some [] \<and>
   content (last (messages (on_avatar_response 9 (Some \<lparr>response_text = Some []\<rparr>) demo_connected)))
     = ''Response received''"
  by (simp add: data_response_text_def on_avatar_response_def or_else_def)

text \<open>
  C9, as amended: a response event appends exactly one assistant message and clears the
  awaitingResponse flag; the content of the message is the payload's text when that is
  present and not empty, and the placeholder \<open>Response received\<close> when it is absent or
  empty.
\<close>

theorem response_appends_assistant_message:
  "(data_response_text d = Some t \<and> t \<noteq> [] \<longrightarrow>
      messages (on_avatar_response now d s) =
        messages s @ [\<lparr>msg_id = now, role = Assistant, content = t, timestamp = now\<rparr>]) \<and>
   (data_response_text d = None \<or> data_response_text d = Some [] \<longrightarrow>
      messages (on_avatar_response now d s) =
        messages s @ [\<lparr>msg_id = now, role = Assistant, content = ''Response received'',
                       timestamp = now\<rparr>]) \<and>
   length (messages (on_avatar_response now d s)) = Suc (length (messages s)) \<and>
   isWaitingForResponse (on_avatar_response now d s) = False"
  by (auto simp: on_avatar_response_def or_else_def)

theorem response_appends_assistant_message_witness:
  "messages (on_avatar_response 9 (Some \<lparr>response_text = Some ''hello''\<rparr>)
       (demo_connected\<lparr>isWaitingForResponse := True\<rparr>))
     = [\<lparr>msg_id = 9, role = Assistant, content = ''hello'', timestamp = 9\<rparr>] \<and>
   isWaitingForResponse (on_avatar_response 9 (Some \<lparr>response_text = Some ''hello''\<rparr>)
       (demo_connected\<lparr>isWaitingForResponse := True\<rparr>)) = False \<and>
   messages (on_avatar_response 9 None (demo_connected\<lparr>isWaitingForResponse := True\<rparr>))
     = [\<lparr>msg_id = 9, role = Assistant, content = ''Response received'', timestamp = 9\<rparr>]"
  using response_appends_assistant_message
          [of "Some \<lparr>response_text = Some ''hello''\<rparr>" "''hello''" 9
              "demo_connected\<lparr>isWaitingForResponse := True\<rparr>"]
        response_appends_assistant_message
          [of None t 9 "demo_connected\<lparr>isWaitingForResponse := True\<rparr>"]
  by (simp add: data_response_text_def demo_connected_def initial_def)


subsection \<open>C10: the input event\<close>

text \<open>
  C10: an input event whose inputType is absent (also when the payload is) or is not
  \<open>voice\<close> changes nothing. An input event whose inputType is \<open>voice\<close> appends a user
  message and sets the awaitingResponse flag, and leaves the other two flags as they are.
\<close>

theorem input_event_only_voice_changes_state:
  "(data_inputType d \<noteq> Some ''voice'' \<longrightarrow> on_avatar_input now d s = s) \<and>
   (data_inputType d = Some ''voice'' \<longrightarrow>
      messages (on_avatar_input now d s) =
        messages s @ [\<lparr>msg_id = now, role = User,
                       content = or_else (data_input_text d) ''Voice input received'',
                       timestamp = now\<rparr>] \<and>
      isWaitingForResponse (on_avatar_input now d s) = True \<and>
      isInitializing (on_avatar_input now d s) = isInitializing s \<and>
      isSending (on_avatar_input now d s) = isSending s)"
  by (simp add: on_avatar_input_def)

theorem input_event_only_voice_changes_state_witness:
  "on_avatar_input 9 None demo_connected = demo_connected \<and>
   on_avatar_input 9 (Some \<lparr>inputType = None, input_text = Some ''x''\<rparr>) demo_connected
     = demo_connected \<and>
   on_avatar_input 9 (Some \<lparr>inputType = Some ''text'', input_text = Some ''x''\<rparr>) demo_connected
     = demo_connected \<and>
   messages (on_avatar_input 9 (Some \<lparr>inputType = Some ''voice'', input_text = Some ''x''\<rparr>)
       demo_connected)
     = [\<lparr>msg_id = 9, role = User, content = ''x'', timestamp = 9\<rparr>] \<and>
   isWaitingForResponse (on_avatar_input 9
       (Some \<lparr>inputType = Some ''voice'', input_text = Some ''x''\<rparr>) demo_connected) = True"
  using input_event_only_voice_changes_state [of None 9 demo_connected]
        input_event_only_voice_changes_state
          [of "Some \<lparr>inputType = None, input_text = Some ''x''\<rparr>" 9 demo_connected]
        input_event_only_voice_changes_state
          [of "Some \<lparr>inputType = Some ''text'', input_text = Some ''x''\<rparr>" 9 demo_connected]
        input_event_only_voice_changes_state
          [of "Some \<lparr>inputType = Some ''voice'', input_text = Some ''x''\<rparr>" 9 demo_connected]
  by (simp add: data_inputType_def data_input_text_def or_else_def demo_connected_def initial_def)

end
